theory Spec2Isabelle
  imports Main "HOL-Library.Word"
begin

unbundle bit_operations_syntax

section \<open>MuSig key aggregation (src/modules/musig/keyagg\_impl.h)\<close>

text \<open>
  A shallow embedding of the key-aggregation part of the MuSig module: the point codec,
  the key-aggregation cache and its (de)serialisation, the tagged-hash midstates, the
  key-aggregation coefficient, and the three API functions
  \<open>secp256k1_musig_pubkey_agg\<close>, \<open>secp256k1_musig_pubkey_get\<close> and
  \<open>secp256k1_musig_pubkey_tweak_add\<close>.

  Conventions of the embedding.
  \<^item> A pointer argument is an \<open>option\<close>: \<open>None\<close> is \<open>NULL\<close>, \<open>Some v\<close> is a valid
    pointer to an object holding \<open>v\<close>. A function that writes through a pointer returns
    the new contents next to its \<open>int\<close> return value. The context pointer \<open>ctx\<close> is
    taken to be valid and is left out.
  \<^item> \<open>ARG_CHECK(c)\<close> calls the illegal-argument callback and returns 0 when \<open>c\<close> is
    false; the model keeps the return of 0.
  \<^item> \<open>VERIFY_CHECK(c)\<close> is an assertion: when \<open>c\<close> is false the run ends in
    \<open>Inl\<close> of the assertion that failed, a result different from every returned value.
  \<^item> The group arithmetic (scalar multiplication and point addition) is not part of
    the sources; it is a parameter of the embedding, the record \<open>engine\<close>.
\<close>

subsection \<open>Bytes and outcomes\<close>

type_synonym byte = "8 word"
type_synonym u32 = "32 word"

datatype error =
    VERIFY_CHECK_point_save       \<comment> \<open>keyagg\_impl.h line 26\<close>
  | VERIFY_CHECK_callback_load    \<comment> \<open>keyagg\_impl.h line 183\<close>
  | VERIFY_CHECK_agg_infinity     \<comment> \<open>keyagg\_impl.h line 231\<close>
  | VERIFY_CHECK_tweak_infinity   \<comment> \<open>keyagg\_impl.h line 289\<close>
  | VERIFY_CHECK_ge_to_storage    \<comment> \<open>inside secp256k1\_ge\_to\_storage\<close>
  | VERIFY_CHECK_ge_even_y        \<comment> \<open>inside secp256k1\_extrakeys\_ge\_even\_y\<close>
  | VERIFY_CHECK_pubkey_save      \<comment> \<open>inside secp256k1\_pubkey\_save\<close>

definition bindE :: "error + 'a \<Rightarrow> ('a \<Rightarrow> error + 'b) \<Rightarrow> error + 'b" where
  "bindE m f = (case m of Inl e \<Rightarrow> Inl e | Inr v \<Rightarrow> f v)"

text \<open>\<open>memcpy(dst + off, src, length src)\<close> on a buffer held as a list.\<close>

definition memcpy_at :: "byte list \<Rightarrow> nat \<Rightarrow> byte list \<Rightarrow> byte list" where
  "memcpy_at dst off src = take off dst @ src @ drop (off + length src) dst"

text \<open>Little-endian and big-endian byte strings of a fixed length, and their values.\<close>

primrec le_bytes :: "nat \<Rightarrow> nat \<Rightarrow> byte list" where
  "le_bytes 0 v = []"
| "le_bytes (Suc k) v = of_nat v # le_bytes k (v div 256)"

primrec le_nat :: "byte list \<Rightarrow> nat" where
  "le_nat [] = 0"
| "le_nat (b # bs) = unat b + 256 * le_nat bs"

definition be_bytes :: "nat \<Rightarrow> nat \<Rightarrow> byte list" where
  "be_bytes k v = rev (le_bytes k v)"

definition be_nat :: "byte list \<Rightarrow> nat" where
  "be_nat bs = le_nat (rev bs)"

subsection \<open>SHA-256 (hash.h, hash\_impl.h)\<close>

text \<open>
  Modelled from the spec: the hash primitive \<open>secp256k1_sha256\<close> with its functions
  \<open>initialize\<close>, \<open>write\<close>, \<open>finalize\<close> and \<open>transform\<close> is declared in hash.h, which
  is not among the sources. The spec asks for SHA-256 (FIPS 180-4) with an incremental
  interface whose state is the eight chaining words \<open>s\<close>, a 64-byte block buffer \<open>buf\<close>
  and the number of bytes written \<open>bytes\<close>; keyagg\_impl.h writes \<open>s\<close> and \<open>bytes\<close>
  directly. The byte counter is not bounded here.
\<close>

record secp256k1_sha256 =
  sha_s :: "u32 list"
  sha_buf :: "byte list"
  sha_bytes :: nat

definition rotr :: "nat \<Rightarrow> u32 \<Rightarrow> u32" where
  "rotr k w = drop_bit k w OR push_bit (32 - k) w"

definition Ch :: "u32 \<Rightarrow> u32 \<Rightarrow> u32 \<Rightarrow> u32" where
  "Ch a b c = c XOR (a AND (b XOR c))"

definition Maj :: "u32 \<Rightarrow> u32 \<Rightarrow> u32 \<Rightarrow> u32" where
  "Maj a b c = (a AND b) OR (c AND (a OR b))"

definition Sigma0 :: "u32 \<Rightarrow> u32" where
  "Sigma0 w = rotr 2 w XOR rotr 13 w XOR rotr 22 w"

definition Sigma1 :: "u32 \<Rightarrow> u32" where
  "Sigma1 w = rotr 6 w XOR rotr 11 w XOR rotr 25 w"

definition sigma0 :: "u32 \<Rightarrow> u32" where
  "sigma0 w = rotr 7 w XOR rotr 18 w XOR drop_bit 3 w"

definition sigma1 :: "u32 \<Rightarrow> u32" where
  "sigma1 w = rotr 17 w XOR rotr 19 w XOR drop_bit 10 w"

definition sha256_K :: "u32 list" where
  "sha256_K = [
   0x428A2F98, 0x71374491, 0xB5C0FBCF, 0xE9B5DBA5, 0x3956C25B, 0x59F111F1, 0x923F82A4, 0xAB1C5ED5,
   0xD807AA98, 0x12835B01, 0x243185BE, 0x550C7DC3, 0x72BE5D74, 0x80DEB1FE, 0x9BDC06A7, 0xC19BF174,
   0xE49B69C1, 0xEFBE4786, 0x0FC19DC6, 0x240CA1CC, 0x2DE92C6F, 0x4A7484AA, 0x5CB0A9DC, 0x76F988DA,
   0x983E5152, 0xA831C66D, 0xB00327C8, 0xBF597FC7, 0xC6E00BF3, 0xD5A79147, 0x06CA6351, 0x14292967,
   0x27B70A85, 0x2E1B2138, 0x4D2C6DFC, 0x53380D13, 0x650A7354, 0x766A0ABB, 0x81C2C92E, 0x92722C85,
   0xA2BFE8A1, 0xA81A664B, 0xC24B8B70, 0xC76C51A3, 0xD192E819, 0xD6990624, 0xF40E3585, 0x106AA070,
   0x19A4C116, 0x1E376C08, 0x2748774C, 0x34B0BCB5, 0x391C0CB3, 0x4ED8AA4A, 0x5B9CCA4F, 0x682E6FF3,
   0x748F82EE, 0x78A5636F, 0x84C87814, 0x8CC70208, 0x90BEFFFA, 0xA4506CEB, 0xBEF9A3F7, 0xC67178F2]"

definition sha256_IV :: "u32 list" where
  "sha256_IV = [0x6A09E667, 0xBB67AE85, 0x3C6EF372, 0xA54FF53A,
                0x510E527F, 0x9B05688C, 0x1F83D9AB, 0x5BE0CD19]"

text \<open>\<open>BE32\<close>: the 32-bit word of four bytes in memory, most significant first, and back.\<close>

fun be32 :: "byte list \<Rightarrow> u32" where
  "be32 [a, b, c, d] =
     push_bit 24 (ucast a) OR push_bit 16 (ucast b) OR push_bit 8 (ucast c) OR ucast d"
| "be32 _ = 0"

definition be32_bytes :: "u32 \<Rightarrow> byte list" where
  "be32_bytes w = [ucast (drop_bit 24 w), ucast (drop_bit 16 w), ucast (drop_bit 8 w), ucast w]"

fun block_words :: "byte list \<Rightarrow> u32 list" where
  "block_words (a # b # c # d # r) = be32 [a, b, c, d] # block_words r"
| "block_words _ = []"

text \<open>The message schedule: \<open>k\<close> more words after the ones in \<open>w\<close>.\<close>

fun sha256_schedule :: "nat \<Rightarrow> u32 list \<Rightarrow> u32 list" where
  "sha256_schedule 0 w = w"
| "sha256_schedule (Suc k) w =
     sha256_schedule k
       (w @ [sigma1 (w ! (length w - 2)) + w ! (length w - 7)
             + sigma0 (w ! (length w - 15)) + w ! (length w - 16)])"

text \<open>The macro \<open>Round\<close>, once for each round constant and schedule word.\<close>

fun sha256_rounds :: "u32 list \<Rightarrow> u32 list \<Rightarrow> u32 list \<Rightarrow> u32 list" where
  "sha256_rounds [a, b, c, d, e, f, g, h] (k # ks) (w # ws) =
     (let t1 = h + Sigma1 e + Ch e f g + k + w;
          t2 = Sigma0 a + Maj a b c
      in sha256_rounds [t1 + t2, a, b, c, d + t1, e, f, g] ks ws)"
| "sha256_rounds st _ _ = st"

definition secp256k1_sha256_transform :: "u32 list \<Rightarrow> byte list \<Rightarrow> u32 list" where
  "secp256k1_sha256_transform st chunk =
     map2 (+) st (sha256_rounds st sha256_K (sha256_schedule 48 (block_words chunk)))"

definition secp256k1_sha256_initialize :: "secp256k1_sha256 \<Rightarrow> secp256k1_sha256" where
  "secp256k1_sha256_initialize hash = hash\<lparr>sha_s := sha256_IV, sha_bytes := 0\<rparr>"

text \<open>
  The loop of \<open>secp256k1_sha256_write\<close>: while the data fills the buffer, copy a chunk,
  transform, and go on with an empty buffer. \<open>bufsize\<close> is \<open>bytes & 0x3F\<close>, below 64.
\<close>

function sha256_write_loop ::
  "u32 list \<Rightarrow> byte list \<Rightarrow> nat \<Rightarrow> byte list \<Rightarrow> u32 list \<times> byte list \<times> nat \<times> byte list" where
  "sha256_write_loop st bf bufsize data =
     (if bufsize < 64 \<and> 64 - bufsize \<le> length data then
        (let chunk_len = 64 - bufsize;
             bf' = memcpy_at bf bufsize (take chunk_len data);
             st' = secp256k1_sha256_transform st bf'
         in sha256_write_loop st' bf' 0 (drop chunk_len data))
      else (st, bf, bufsize, data))"
  by pat_completeness auto
termination
  by (relation "measure (\<lambda>(st, bf, bufsize, data). length data)") auto

declare sha256_write_loop.simps [simp del]

definition secp256k1_sha256_write :: "secp256k1_sha256 \<Rightarrow> byte list \<Rightarrow> secp256k1_sha256" where
  "secp256k1_sha256_write hash data =
     (let bufsize = sha_bytes hash mod 64;
          (st, bf, bufsize', rest) = sha256_write_loop (sha_s hash) (sha_buf hash) bufsize data;
          bf' = (if rest \<noteq> [] then memcpy_at bf bufsize' rest else bf)
      in hash\<lparr>sha_s := st, sha_buf := bf', sha_bytes := sha_bytes hash + length data\<rparr>)"

text \<open>
  \<open>secp256k1_sha256_finalize\<close>: pad with 0x80 and zeros up to 56 modulo 64, append the
  bit length as 8 bytes, and output the chaining words, which are then cleared.
\<close>

definition sha256_sizedesc :: "nat \<Rightarrow> byte list" where
  "sha256_sizedesc n = be_bytes 8 ((8 * n) mod 2 ^ 64)"

definition secp256k1_sha256_finalize :: "secp256k1_sha256 \<Rightarrow> secp256k1_sha256 \<times> byte list" where
  "secp256k1_sha256_finalize hash =
     (let sizedesc = sha256_sizedesc (sha_bytes hash);
          pad = 0x80 # replicate ((119 - sha_bytes hash mod 64) mod 64) 0;
          h1 = secp256k1_sha256_write hash pad;
          h2 = secp256k1_sha256_write h1 sizedesc;
          out = concat (map be32_bytes (sha_s h2))
      in (h2\<lparr>sha_s := replicate 8 0\<rparr>, out))"

text \<open>A local \<open>secp256k1_sha256\<close> before it is initialised: its contents are not read.\<close>

definition sha256_local :: secp256k1_sha256 where
  "sha256_local = \<lparr>sha_s = replicate 8 0, sha_buf = replicate 64 0, sha_bytes = 0\<rparr>"

text \<open>
  The plain definitions the spec compares the midstates with: SHA-256 of a message in
  one go, and the tagged hash \<open>SHA256(SHA256(tag) || SHA256(tag) || msg)\<close>.
\<close>

definition sha256 :: "byte list \<Rightarrow> byte list" where
  "sha256 msg =
     snd (secp256k1_sha256_finalize
            (secp256k1_sha256_write (secp256k1_sha256_initialize sha256_local) msg))"

definition tagged_hash_plain :: "byte list \<Rightarrow> byte list \<Rightarrow> byte list" where
  "tagged_hash_plain tag msg = sha256 (sha256 tag @ sha256 tag @ msg)"

text \<open>
  The same hash as a function of the whole message (FIPS 180-4): the message is padded
  and the blocks of 64 bytes are absorbed one after the other. \<open>sha256_absorb\<close> returns
  the chaining words and the bytes left over.
\<close>

function sha256_absorb :: "u32 list \<Rightarrow> byte list \<Rightarrow> u32 list \<times> byte list" where
  "sha256_absorb st data =
     (if 64 \<le> length data
      then sha256_absorb (secp256k1_sha256_transform st (take 64 data)) (drop 64 data)
      else (st, data))"
  by pat_completeness auto
termination
  by (relation "measure (\<lambda>(st, data). length data)") auto

declare sha256_absorb.simps [simp del]

definition sha256_padding :: "nat \<Rightarrow> byte list" where
  "sha256_padding n = (0x80 # replicate ((119 - n mod 64) mod 64) 0) @ sha256_sizedesc n"

definition sha256_digest :: "u32 list \<Rightarrow> byte list" where
  "sha256_digest st = concat (map be32_bytes st)"

text \<open>What of a hash object the later calls depend on: the chaining words, the byte
  counter and the bytes of the buffer that are pending.\<close>

definition sha256_pending :: "secp256k1_sha256 \<Rightarrow> byte list" where
  "sha256_pending hash = take (sha_bytes hash mod 64) (sha_buf hash)"

definition sha256_view :: "secp256k1_sha256 \<Rightarrow> u32 list \<times> nat \<times> byte list" where
  "sha256_view hash = (sha_s hash, sha_bytes hash, sha256_pending hash)"

definition ascii :: "string \<Rightarrow> byte list" where
  "ascii str = map (\<lambda>c. of_nat (of_char c)) str"

subsection \<open>Field elements, scalars and group elements (field.h, scalar.h, group.h)\<close>

text \<open>
  Modelled from the spec: field.h, scalar.h and group.h are not among the sources. A
  field element is modelled by the integer its limbs hold (below the prime once it is
  normalized), a scalar by its value below the group order. The spec names the two
  moduli only as the field and the group order of the curve; they are the ones of
  secp256k1.
\<close>

type_synonym secp256k1_fe = nat
type_synonym secp256k1_scalar = nat

definition secp256k1_p :: nat where
  "secp256k1_p = 0xFFFFFFFFFFFFFFFFFFFFFFFFFFFFFFFFFFFFFFFFFFFFFFFFFFFFFFFEFFFFFC2F"

definition secp256k1_n :: nat where
  "secp256k1_n = 0xFFFFFFFFFFFFFFFFFFFFFFFFFFFFFFFEBAAEDCE6AF48A03BBFD25E8CD0364141"

definition secp256k1_fe_normalize_var :: "secp256k1_fe \<Rightarrow> secp256k1_fe" where
  "secp256k1_fe_normalize_var a = a mod secp256k1_p"

text \<open>\<open>secp256k1_fe_set_b32\<close> reads 32 big-endian bytes and does not reduce them; its
  return value (no overflow) is not used by this module.\<close>

definition secp256k1_fe_set_b32 :: "byte list \<Rightarrow> secp256k1_fe" where
  "secp256k1_fe_set_b32 a = be_nat (take 32 a)"

definition secp256k1_fe_get_b32 :: "secp256k1_fe \<Rightarrow> byte list" where
  "secp256k1_fe_get_b32 a = be_bytes 32 a"

definition secp256k1_fe_set_int :: "nat \<Rightarrow> secp256k1_fe" where
  "secp256k1_fe_set_int a = a"

definition secp256k1_fe_is_zero :: "secp256k1_fe \<Rightarrow> bool" where
  "secp256k1_fe_is_zero a = (a = 0)"

definition secp256k1_fe_is_odd :: "secp256k1_fe \<Rightarrow> bool" where
  "secp256k1_fe_is_odd a = odd a"

definition secp256k1_fe_cmp_var :: "secp256k1_fe \<Rightarrow> secp256k1_fe \<Rightarrow> int" where
  "secp256k1_fe_cmp_var a b = (if a < b then - 1 else if b < a then 1 else 0)"

text \<open>The negation, given by its normalized representative.\<close>

definition secp256k1_fe_negate :: "secp256k1_fe \<Rightarrow> secp256k1_fe" where
  "secp256k1_fe_negate a = (secp256k1_p - a mod secp256k1_p) mod secp256k1_p"

text \<open>\<open>secp256k1_scalar_set_b32\<close>: the value reduced modulo the group order, and the
  overflow flag.\<close>

definition secp256k1_scalar_set_b32 :: "byte list \<Rightarrow> secp256k1_scalar \<times> bool" where
  "secp256k1_scalar_set_b32 b32 =
     (be_nat (take 32 b32) mod secp256k1_n, secp256k1_n \<le> be_nat (take 32 b32))"

definition secp256k1_scalar_get_b32 :: "secp256k1_scalar \<Rightarrow> byte list" where
  "secp256k1_scalar_get_b32 a = be_bytes 32 a"

definition secp256k1_scalar_set_int :: "nat \<Rightarrow> secp256k1_scalar" where
  "secp256k1_scalar_set_int v = v"

definition secp256k1_scalar_negate :: "secp256k1_scalar \<Rightarrow> secp256k1_scalar" where
  "secp256k1_scalar_negate a = (secp256k1_n - a mod secp256k1_n) mod secp256k1_n"

definition secp256k1_scalar_add :: "secp256k1_scalar \<Rightarrow> secp256k1_scalar \<Rightarrow> secp256k1_scalar" where
  "secp256k1_scalar_add a b = (a + b) mod secp256k1_n"

record secp256k1_ge =
  ge_x :: secp256k1_fe
  ge_y :: secp256k1_fe
  ge_infinity :: bool

definition secp256k1_ge_is_infinity :: "secp256k1_ge \<Rightarrow> bool" where
  "secp256k1_ge_is_infinity a = ge_infinity a"

definition secp256k1_ge_set_xy :: "secp256k1_fe \<Rightarrow> secp256k1_fe \<Rightarrow> secp256k1_ge" where
  "secp256k1_ge_set_xy a b = \<lparr>ge_x = a, ge_y = b, ge_infinity = False\<rparr>"

text \<open>
  \<open>secp256k1_ge_storage\<close> holds the two normalized coordinates as limbs, least
  significant first; copied to bytes on a little-endian host this is 32 little-endian
  bytes for each coordinate. The point at infinity has no storage form (an assertion).
\<close>

definition secp256k1_ge_to_storage :: "secp256k1_ge \<Rightarrow> error + byte list" where
  "secp256k1_ge_to_storage a =
     (if ge_infinity a then Inl VERIFY_CHECK_ge_to_storage
      else Inr (le_bytes 32 (secp256k1_fe_normalize_var (ge_x a)) @
                le_bytes 32 (secp256k1_fe_normalize_var (ge_y a))))"

definition secp256k1_ge_from_storage :: "byte list \<Rightarrow> secp256k1_ge" where
  "secp256k1_ge_from_storage a =
     \<lparr>ge_x = le_nat (take 32 a), ge_y = le_nat (take 32 (drop 32 a)), ge_infinity = False\<rparr>"

text \<open>
  The arithmetic engine, a parameter: whether \<open>sizeof(secp256k1_ge_storage) == 64\<close>
  holds on the platform, \<open>secp256k1_ecmult\<close> (\<open>ecmult E a na ng\<close> is \<open>na * a + ng * G\<close>)
  and \<open>secp256k1_gej_add_var\<close>. A Jacobian point (\<open>secp256k1_gej\<close>) is modelled by the
  affine point it stands for, so that \<open>secp256k1_ge_set_gej\<close> and
  \<open>secp256k1_gej_set_ge\<close> are the identity.
\<close>

record engine =
  ge_storage_is_64 :: bool
  ecmult :: "secp256k1_ge \<Rightarrow> secp256k1_scalar \<Rightarrow> secp256k1_scalar \<Rightarrow> secp256k1_ge"
  gej_add_var :: "secp256k1_ge \<Rightarrow> secp256k1_ge \<Rightarrow> secp256k1_ge"

definition gej_infinity :: secp256k1_ge where
  "gej_infinity = \<lparr>ge_x = 0, ge_y = 0, ge_infinity = True\<rparr>"

subsection \<open>The point codec (lines 20 to 48)\<close>

text \<open>\<open>secp256k1_point_save\<close> returns the 64 bytes written to \<open>data\<close> and the point,
  which the second branch normalizes in place.\<close>

definition secp256k1_point_save :: "engine \<Rightarrow> secp256k1_ge \<Rightarrow> error + (byte list \<times> secp256k1_ge)" where
  "secp256k1_point_save E ge =
     (if ge_storage_is_64 E then
        bindE (secp256k1_ge_to_storage ge) (\<lambda>st. Inr (st, ge))
      else if secp256k1_ge_is_infinity ge then Inl VERIFY_CHECK_point_save
      else
        (let ge1 = ge\<lparr>ge_x := secp256k1_fe_normalize_var (ge_x ge)\<rparr>;
             ge2 = ge1\<lparr>ge_y := secp256k1_fe_normalize_var (ge_y ge1)\<rparr>
         in Inr (secp256k1_fe_get_b32 (ge_x ge2) @ secp256k1_fe_get_b32 (ge_y ge2), ge2)))"

definition secp256k1_point_load :: "engine \<Rightarrow> byte list \<Rightarrow> secp256k1_ge" where
  "secp256k1_point_load E data =
     (if ge_storage_is_64 E then secp256k1_ge_from_storage (take 64 data)
      else secp256k1_ge_set_xy (secp256k1_fe_set_b32 data) (secp256k1_fe_set_b32 (drop 32 data)))"

subsection \<open>Public keys (secp256k1.c, modules/extrakeys, eckey\_impl.h)\<close>

text \<open>
  Modelled from the spec: the functions of this subsection are defined outside the
  sources. \<open>secp256k1_pubkey\<close> and \<open>secp256k1_xonly_pubkey\<close> are 64 opaque bytes in the
  format of the point codec; a key whose x-coordinate is zero (as the all-zero key is)
  does not deserialize. \<open>secp256k1_extrakeys_ge_even_y\<close> is the even-y
  canonicalization: it negates a point with odd y and returns 1 for it, 0 otherwise.
  \<open>secp256k1_eckey_pubkey_tweak_add\<close> adds \<open>tweak * G\<close> to the key and fails, leaving
  the key as it is, when the sum is the point at infinity.
\<close>

definition secp256k1_pubkey_load :: "engine \<Rightarrow> byte list \<Rightarrow> secp256k1_ge option" where
  "secp256k1_pubkey_load E pubkey =
     (let ge = secp256k1_point_load E pubkey
      in if secp256k1_fe_is_zero (ge_x ge) then None else Some ge)"

definition secp256k1_pubkey_save :: "engine \<Rightarrow> secp256k1_ge \<Rightarrow> error + (byte list \<times> secp256k1_ge)" where
  "secp256k1_pubkey_save E ge =
     (if ge_storage_is_64 E then
        bindE (secp256k1_ge_to_storage ge) (\<lambda>st. Inr (st, ge))
      else if secp256k1_ge_is_infinity ge then Inl VERIFY_CHECK_pubkey_save
      else
        (let ge1 = ge\<lparr>ge_x := secp256k1_fe_normalize_var (ge_x ge)\<rparr>;
             ge2 = ge1\<lparr>ge_y := secp256k1_fe_normalize_var (ge_y ge1)\<rparr>
         in Inr (secp256k1_fe_get_b32 (ge_x ge2) @ secp256k1_fe_get_b32 (ge_y ge2), ge2)))"

definition secp256k1_xonly_pubkey_load :: "engine \<Rightarrow> byte list \<Rightarrow> secp256k1_ge option" where
  "secp256k1_xonly_pubkey_load E pubkey = secp256k1_pubkey_load E pubkey"

definition secp256k1_xonly_pubkey_save :: "engine \<Rightarrow> secp256k1_ge \<Rightarrow> error + (byte list \<times> secp256k1_ge)" where
  "secp256k1_xonly_pubkey_save E ge = secp256k1_pubkey_save E ge"

definition secp256k1_xonly_pubkey_serialize :: "engine \<Rightarrow> byte list \<Rightarrow> byte list option" where
  "secp256k1_xonly_pubkey_serialize E pubkey =
     (case secp256k1_xonly_pubkey_load E pubkey of
        None \<Rightarrow> None
      | Some pk \<Rightarrow> Some (secp256k1_fe_get_b32 (ge_x pk)))"

definition secp256k1_extrakeys_ge_even_y :: "secp256k1_ge \<Rightarrow> error + (int \<times> secp256k1_ge)" where
  "secp256k1_extrakeys_ge_even_y r =
     (if secp256k1_ge_is_infinity r then Inl VERIFY_CHECK_ge_even_y
      else if secp256k1_fe_is_odd (ge_y r)
        then Inr (1, r\<lparr>ge_y := secp256k1_fe_negate (ge_y r)\<rparr>)
        else Inr (0, r))"

definition secp256k1_eckey_pubkey_tweak_add ::
  "engine \<Rightarrow> secp256k1_ge \<Rightarrow> secp256k1_scalar \<Rightarrow> int \<times> secp256k1_ge" where
  "secp256k1_eckey_pubkey_tweak_add E key tweak =
     (let pt = ecmult E key (secp256k1_scalar_set_int 1) tweak
      in if ge_infinity pt then (0, key) else (1, pt))"

subsection \<open>The key-aggregation cache (lines 50 to 91)\<close>

definition secp256k1_musig_keyagg_cache_magic :: "byte list" where
  "secp256k1_musig_keyagg_cache_magic = [0xf4, 0xad, 0xbb, 0xdf]"

record secp256k1_keyagg_cache_internal =
  cache_pk :: secp256k1_ge
  cache_second_pk_x :: secp256k1_fe
  cache_pk_hash :: "byte list"
  cache_tweak :: secp256k1_scalar
  cache_internal_key_parity :: int

text \<open>\<open>secp256k1_keyagg_cache_save\<close> returns the 165 bytes of the cache and the
  internal cache, whose point \<open>secp256k1_point_save\<close> may have normalized.\<close>

definition secp256k1_keyagg_cache_save ::
  "engine \<Rightarrow> byte list \<Rightarrow> secp256k1_keyagg_cache_internal
     \<Rightarrow> error + (byte list \<times> secp256k1_keyagg_cache_internal)" where
  "secp256k1_keyagg_cache_save E cache cache_i =
     (let c1 = memcpy_at cache 0 secp256k1_musig_keyagg_cache_magic
      in bindE (secp256k1_point_save E (cache_pk cache_i)) (\<lambda>(data, pk').
           (let cache_i' = cache_i\<lparr>cache_pk := pk'\<rparr>;
                c2 = memcpy_at c1 4 data;
                c3 = memcpy_at c2 68 (secp256k1_fe_get_b32 (cache_second_pk_x cache_i'));
                c4 = memcpy_at c3 100 (take 32 (cache_pk_hash cache_i'));
                c5 = c4[132 := word_of_int (cache_internal_key_parity cache_i')];
                c6 = memcpy_at c5 133 (secp256k1_scalar_get_b32 (cache_tweak cache_i'))
            in Inr (c6, cache_i'))))"

text \<open>\<open>secp256k1_keyagg_cache_load\<close>: \<open>None\<close> is the return of 0 of the \<open>ARG_CHECK\<close> on
  the magic, \<open>Some cache_i\<close> the return of 1 with the internal cache filled in.\<close>

definition secp256k1_keyagg_cache_load ::
  "engine \<Rightarrow> byte list \<Rightarrow> secp256k1_keyagg_cache_internal option" where
  "secp256k1_keyagg_cache_load E cache =
     (if take 4 cache \<noteq> secp256k1_musig_keyagg_cache_magic then None
      else Some
        \<lparr>cache_pk = secp256k1_point_load E (drop 4 cache),
         cache_second_pk_x = secp256k1_fe_set_b32 (drop 68 cache),
         cache_pk_hash = take 32 (drop 100 cache),
         cache_tweak = fst (secp256k1_scalar_set_b32 (drop 133 cache)),
         cache_internal_key_parity = uint (cache ! 132 AND 1)\<rparr>)"

subsection \<open>The tagged hashes and the coefficient (lines 93 to 166)\<close>

definition secp256k1_musig_keyagglist_sha256 :: "secp256k1_sha256 \<Rightarrow> secp256k1_sha256" where
  "secp256k1_musig_keyagglist_sha256 sha =
     (secp256k1_sha256_initialize sha)
       \<lparr>sha_s := [0xb399d5e0, 0xc8fff302, 0x6badac71, 0x07c5b7f1,
                  0x9701e2ef, 0x2a72ecf8, 0x201a4c7b, 0xab148a38],
        sha_bytes := 64\<rparr>"

text \<open>The loop of \<open>secp256k1_musig_compute_pk_hash\<close> over the indices still to do.\<close>

fun compute_pk_hash_loop ::
  "engine \<Rightarrow> byte list list \<Rightarrow> secp256k1_sha256 \<Rightarrow> nat list \<Rightarrow> secp256k1_sha256 option" where
  "compute_pk_hash_loop E pk sha [] = Some sha"
| "compute_pk_hash_loop E pk sha (i # is) =
     (case secp256k1_xonly_pubkey_serialize E (pk ! i) of
        None \<Rightarrow> None
      | Some ser \<Rightarrow> compute_pk_hash_loop E pk (secp256k1_sha256_write sha ser) is)"

definition secp256k1_musig_compute_pk_hash ::
  "engine \<Rightarrow> byte list list \<Rightarrow> nat \<Rightarrow> byte list option" where
  "secp256k1_musig_compute_pk_hash E pk np =
     (case compute_pk_hash_loop E pk (secp256k1_musig_keyagglist_sha256 sha256_local) [0..<np] of
        None \<Rightarrow> None
      | Some sha \<Rightarrow> Some (snd (secp256k1_sha256_finalize sha)))"

definition secp256k1_musig_keyaggcoef_sha256 :: "secp256k1_sha256 \<Rightarrow> secp256k1_sha256" where
  "secp256k1_musig_keyaggcoef_sha256 sha =
     (secp256k1_sha256_initialize sha)
       \<lparr>sha_s := [0x6ef02c5a, 0x06a480de, 0x1f298665, 0x1d1134f2,
                  0x56a0b063, 0x52da4147, 0xf280d9d4, 0x4484be15],
        sha_bytes := 64\<rparr>"

definition secp256k1_musig_keyaggcoef_internal ::
  "byte list \<Rightarrow> secp256k1_fe \<Rightarrow> secp256k1_fe \<Rightarrow> secp256k1_scalar" where
  "secp256k1_musig_keyaggcoef_internal pk_hash x second_pk_x =
     (if secp256k1_fe_cmp_var x second_pk_x = 0 then secp256k1_scalar_set_int 1
      else
        (let sha = secp256k1_musig_keyaggcoef_sha256 sha256_local;
             sha = secp256k1_sha256_write sha (take 32 pk_hash);
             buf = secp256k1_fe_get_b32 x;
             sha = secp256k1_sha256_write sha buf;
             buf = snd (secp256k1_sha256_finalize sha)
         in fst (secp256k1_scalar_set_b32 buf)))"

definition secp256k1_musig_keyaggcoef ::
  "secp256k1_keyagg_cache_internal \<Rightarrow> secp256k1_fe \<Rightarrow> secp256k1_scalar" where
  "secp256k1_musig_keyaggcoef cache_i x =
     secp256k1_musig_keyaggcoef_internal (cache_pk_hash cache_i) x (cache_second_pk_x cache_i)"

subsection \<open>Aggregation (lines 168 to 245)\<close>

record secp256k1_musig_pubkey_agg_ecmult_data =
  ed_pk_hash :: "byte list"
  ed_pks :: "byte list list"
  ed_second_pk_x :: secp256k1_fe

definition secp256k1_musig_pubkey_agg_callback ::
  "engine \<Rightarrow> secp256k1_musig_pubkey_agg_ecmult_data \<Rightarrow> nat
     \<Rightarrow> error + (int \<times> secp256k1_scalar \<times> secp256k1_ge)" where
  "secp256k1_musig_pubkey_agg_callback E ctx idx =
     (case secp256k1_xonly_pubkey_load E (ed_pks ctx ! idx) of
        None \<Rightarrow> Inl VERIFY_CHECK_callback_load
      | Some pt \<Rightarrow>
          Inr (1, secp256k1_musig_keyaggcoef_internal (ed_pk_hash ctx) (ge_x pt) (ed_second_pk_x ctx),
               pt))"

text \<open>
  Modelled from the spec: \<open>secp256k1_ecmult_multi_var\<close> (ecmult\_impl.h, not among the
  sources) is the multi-scalar multiplication: without scratch space it starts from
  \<open>0 * G\<close> and, for each index in turn, asks the callback for a scalar and a point and
  adds their product; it fails only when the callback does.
\<close>

fun ecmult_multi_loop ::
  "engine \<Rightarrow> (nat \<Rightarrow> error + (int \<times> secp256k1_scalar \<times> secp256k1_ge)) \<Rightarrow> secp256k1_ge
     \<Rightarrow> nat list \<Rightarrow> error + (int \<times> secp256k1_ge)" where
  "ecmult_multi_loop E cb r [] = Inr (1, r)"
| "ecmult_multi_loop E cb r (i # is) =
     bindE (cb i) (\<lambda>(ret, sc, pt).
       if ret = 0 then Inr (0, r)
       else ecmult_multi_loop E cb (gej_add_var E r (ecmult E pt sc 0)) is)"

definition secp256k1_ecmult_multi_var ::
  "engine \<Rightarrow> (nat \<Rightarrow> error + (int \<times> secp256k1_scalar \<times> secp256k1_ge)) \<Rightarrow> nat
     \<Rightarrow> error + (int \<times> secp256k1_ge)" where
  "secp256k1_ecmult_multi_var E cb n = ecmult_multi_loop E cb (ecmult E gej_infinity 0 0) [0..<n]"

text \<open>The loop of lines 206 to 215 over the indices still to do: \<open>None\<close> is the
  \<open>return 0\<close> of line 210, \<open>Some x\<close> the value of \<open>second_pk_x\<close> after the loop.\<close>

fun pubkey_agg_second_pk_x ::
  "engine \<Rightarrow> byte list list \<Rightarrow> secp256k1_fe \<Rightarrow> nat list \<Rightarrow> secp256k1_fe option" where
  "pubkey_agg_second_pk_x E pubkeys second [] = Some second"
| "pubkey_agg_second_pk_x E pubkeys second (i # is) =
     (if take 64 (pubkeys ! 0) \<noteq> take 64 (pubkeys ! i) then
        (case secp256k1_xonly_pubkey_load E (pubkeys ! i) of
           None \<Rightarrow> None
         | Some pt \<Rightarrow> Some (ge_x pt))
      else pubkey_agg_second_pk_x E pubkeys second is)"

definition secp256k1_musig_pubkey_agg ::
  "engine \<Rightarrow> byte list option \<Rightarrow> byte list option \<Rightarrow> byte list list option
     \<Rightarrow> error + (int \<times> byte list option \<times> byte list option)" where
  "secp256k1_musig_pubkey_agg E agg_pk keyagg_cache pubkeys =
     (let agg_pk0 = map_option (\<lambda>_. replicate 64 0) agg_pk
      in case pubkeys of
           None \<Rightarrow> Inr (0, agg_pk0, keyagg_cache)
         | Some pks \<Rightarrow>
      if \<not> 0 < length pks then Inr (0, agg_pk0, keyagg_cache)
      else case pubkey_agg_second_pk_x E pks (secp256k1_fe_set_int 0) [1..<length pks] of
           None \<Rightarrow> Inr (0, agg_pk0, keyagg_cache)
         | Some second \<Rightarrow>
      case secp256k1_musig_compute_pk_hash E pks (length pks) of
           None \<Rightarrow> Inr (0, agg_pk0, keyagg_cache)
         | Some pk_hash \<Rightarrow>
      (let ecmult_data = \<lparr>ed_pk_hash = pk_hash, ed_pks = pks, ed_second_pk_x = second\<rparr>
       in bindE (secp256k1_ecmult_multi_var E
                   (secp256k1_musig_pubkey_agg_callback E ecmult_data) (length pks))
          (\<lambda>(ret, pkj).
            if ret = 0 then Inr (0, agg_pk0, keyagg_cache)
            else
              (let pkp = pkj\<lparr>ge_y := secp256k1_fe_normalize_var (ge_y pkj)\<rparr>
               in if secp256k1_ge_is_infinity pkp then Inl VERIFY_CHECK_agg_infinity
                  else
                    bindE (case keyagg_cache of
                             None \<Rightarrow> Inr None
                           | Some cache \<Rightarrow>
                               bindE (secp256k1_keyagg_cache_save E cache
                                        \<lparr>cache_pk = pkp, cache_second_pk_x = second,
                                         cache_pk_hash = pk_hash, cache_tweak = 0,
                                         cache_internal_key_parity = 0\<rparr>)
                                 (\<lambda>(cache', cache_i). Inr (Some cache')))
                    (\<lambda>keyagg_cache'.
                      bindE (secp256k1_extrakeys_ge_even_y pkp) (\<lambda>(par, pkp').
                        case agg_pk of
                          None \<Rightarrow> Inr (1, None, keyagg_cache')
                        | Some old \<Rightarrow>
                            bindE (secp256k1_xonly_pubkey_save E pkp') (\<lambda>(data, ge).
                              Inr (1, Some data, keyagg_cache'))))))))"

subsection \<open>Reading and tweaking the cached key (lines 247 to 295)\<close>

definition secp256k1_musig_pubkey_get ::
  "engine \<Rightarrow> byte list option \<Rightarrow> byte list option
     \<Rightarrow> error + (int \<times> byte list option \<times> byte list option)" where
  "secp256k1_musig_pubkey_get E agg_pk keyagg_cache =
     (case agg_pk of
        None \<Rightarrow> Inr (0, agg_pk, keyagg_cache)
      | Some old \<Rightarrow>
     (let agg_pk0 = Some (replicate 64 0)
      in case keyagg_cache of
           None \<Rightarrow> Inr (0, agg_pk0, keyagg_cache)
         | Some cache \<Rightarrow>
      case secp256k1_keyagg_cache_load E cache of
           None \<Rightarrow> Inr (0, agg_pk0, keyagg_cache)
         | Some cache_i \<Rightarrow>
             bindE (secp256k1_pubkey_save E (cache_pk cache_i)) (\<lambda>(data, ge).
               Inr (1, Some data, keyagg_cache))))"

definition secp256k1_musig_pubkey_tweak_add ::
  "engine \<Rightarrow> byte list option \<Rightarrow> byte list option \<Rightarrow> byte list option
     \<Rightarrow> error + (int \<times> byte list option \<times> byte list option)" where
  "secp256k1_musig_pubkey_tweak_add E output_pubkey keyagg_cache tweak32 =
     (let output_pubkey0 = map_option (\<lambda>_. replicate 64 0) output_pubkey
      in case keyagg_cache of
           None \<Rightarrow> Inr (0, output_pubkey0, keyagg_cache)
         | Some cache \<Rightarrow>
      case tweak32 of
           None \<Rightarrow> Inr (0, output_pubkey0, keyagg_cache)
         | Some tweak_bytes \<Rightarrow>
      case secp256k1_keyagg_cache_load E cache of
           None \<Rightarrow> Inr (0, output_pubkey0, keyagg_cache)
         | Some cache_i0 \<Rightarrow>
      (let (tweak, overflow) = secp256k1_scalar_set_b32 tweak_bytes
       in if overflow then Inr (0, output_pubkey0, keyagg_cache)
          else
            bindE (secp256k1_extrakeys_ge_even_y (cache_pk cache_i0)) (\<lambda>(odd_y, pk1).
              (let cache_i1 = cache_i0\<lparr>cache_pk := pk1\<rparr>;
                   cache_i2 =
                     (if odd_y \<noteq> 0 then
                        cache_i1\<lparr>cache_internal_key_parity := cache_internal_key_parity cache_i1 XOR 1,
                                 cache_tweak := secp256k1_scalar_negate (cache_tweak cache_i1)\<rparr>
                      else cache_i1);
                   cache_i3 = cache_i2\<lparr>cache_tweak := secp256k1_scalar_add (cache_tweak cache_i2) tweak\<rparr>;
                   (ret, pk2) = secp256k1_eckey_pubkey_tweak_add E (cache_pk cache_i3) tweak
               in if ret = 0 then Inr (0, output_pubkey0, keyagg_cache)
                  else
                    (let cache_i4 = cache_i3\<lparr>cache_pk := pk2\<rparr>
                     in if secp256k1_ge_is_infinity (cache_pk cache_i4)
                        then Inl VERIFY_CHECK_tweak_infinity
                        else
                          bindE (secp256k1_keyagg_cache_save E cache cache_i4) (\<lambda>(cache', cache_i5).
                            case output_pubkey of
                              None \<Rightarrow> Inr (1, None, Some cache')
                            | Some old \<Rightarrow>
                                bindE (secp256k1_pubkey_save E (cache_pk cache_i5)) (\<lambda>(data, ge).
                                  Inr (1, Some data, Some cache'))))))))"

subsection \<open>An engine to run the embedding on\<close>

text \<open>
  The cyclic group of the order of the curve, written as points: the element with
  logarithm \<open>k\<close> (to the generator, the element with logarithm 1) carries the smaller of
  \<open>k\<close> and \<open>n - k\<close> as its x-coordinate and tells the two apart by the parity of its
  y-coordinate, which is 2 or \<open>p - 2\<close>. Negating y negates the logarithm, as on the
  curve. It stands in for the curve arithmetic where a statement is run on concrete
  inputs.
\<close>

definition cyclic_log :: "secp256k1_ge \<Rightarrow> nat" where
  "cyclic_log a =
     (if ge_infinity a then 0
      else
        (let j = ge_x a mod secp256k1_n
         in if even (ge_y a mod secp256k1_p) = even j then j
            else (secp256k1_n - j) mod secp256k1_n))"

definition cyclic_point :: "nat \<Rightarrow> secp256k1_ge" where
  "cyclic_point k =
     (let k' = k mod secp256k1_n
      in if k' = 0 then gej_infinity
         else
           (let j = min k' (secp256k1_n - k')
            in \<lparr>ge_x = j,
                ge_y = (if (k' = j) = even j then 2 else secp256k1_p - 2),
                ge_infinity = False\<rparr>))"

definition cyclic_engine :: "bool \<Rightarrow> engine" where
  "cyclic_engine st64 =
     \<lparr>ge_storage_is_64 = st64,
      ecmult = (\<lambda>a na ng. cyclic_point (na * cyclic_log a + ng)),
      gej_add_var = (\<lambda>a b. cyclic_point (cyclic_log a + cyclic_log b))\<rparr>"

section \<open>Properties\<close>

subsection \<open>The incremental hash computes SHA-256 of the bytes written\<close>

lemma memcpy_at_fill:
  "length bf = 64 \<Longrightarrow> k \<le> 64 \<Longrightarrow> length d = 64 - k \<Longrightarrow> memcpy_at bf k d = take k bf @ d"
  by (simp add: memcpy_at_def)

lemma length_memcpy_at:
  "off + length src \<le> length dst \<Longrightarrow> length (memcpy_at dst off src) = length dst"
  by (simp add: memcpy_at_def)

lemma take_memcpy_at:
  "off + length src \<le> length dst \<Longrightarrow> take (off + length src) (memcpy_at dst off src) = take off dst @ src"
  by (simp add: memcpy_at_def)

lemma sha256_absorb_short: "length data < 64 \<Longrightarrow> sha256_absorb st data = (st, data)"
  by (subst sha256_absorb.simps) simp

lemma sha256_absorb_block:
  "length blk = 64 \<Longrightarrow> sha256_absorb st (blk @ data) = sha256_absorb (secp256k1_sha256_transform st blk) data"
  by (subst sha256_absorb.simps) simp

lemma sha256_absorb_unfold_ge:
  "64 \<le> length data \<Longrightarrow>
   sha256_absorb st data = sha256_absorb (secp256k1_sha256_transform st (take 64 data)) (drop 64 data)"
  using sha256_absorb.simps[of st data] by simp

lemma sha256_absorb_append:
  "sha256_absorb st (a @ b) = (case sha256_absorb st a of (st', r) \<Rightarrow> sha256_absorb st' (r @ b))"
proof (induction st a rule: sha256_absorb.induct)
  case (1 st data)
  show ?case
  proof (cases "64 \<le> length data")
    case True
    have "sha256_absorb st (data @ b) = sha256_absorb (secp256k1_sha256_transform st (take 64 data)) (drop 64 data @ b)"
      using True sha256_absorb_unfold_ge[of "data @ b" st] by simp
    also have "\<dots> = (case sha256_absorb (secp256k1_sha256_transform st (take 64 data)) (drop 64 data) of (st', r) \<Rightarrow> sha256_absorb st' (r @ b))"
      using "1.IH"[OF True] .
    also have "sha256_absorb (secp256k1_sha256_transform st (take 64 data)) (drop 64 data) = sha256_absorb st data"
      using sha256_absorb_unfold_ge[OF True, of st] by simp
    finally show ?thesis .
  next
    case False
    then show ?thesis by (simp add: sha256_absorb_short)
  qed
qed

lemma sha256_absorb_rest_length:
  "sha256_absorb st data = (st', r) \<Longrightarrow> length r = length data mod 64"
proof (induction st data arbitrary: st' r rule: sha256_absorb.induct)
  case (1 st data)
  show ?case
  proof (cases "64 \<le> length data")
    case True
    have "sha256_absorb (secp256k1_sha256_transform st (take 64 data)) (drop 64 data) = (st', r)"
      using "1.prems" unfolding sha256_absorb_unfold_ge[OF True, of st] .
    from "1.IH"[OF True this] have "length r = (length data - 64) mod 64" by simp
    then show ?thesis using True le_mod_geq[of 64 "length data"] by simp
  next
    case False
    then have "sha256_absorb st data = (st, data)" by (simp add: sha256_absorb_short)
    then show ?thesis using "1.prems" False by simp
  qed
qed

text \<open>The loop of write against the absorption of the pending bytes and the data.\<close>

lemma sha256_write_loop_absorb:
  assumes "length bf = 64" "bufsize < 64"
  shows "case sha256_write_loop st bf bufsize data of (st', bf', bufsize', rest) \<Rightarrow>
           sha256_absorb st (take bufsize bf @ data) = (st', take bufsize' bf' @ rest)
           \<and> length bf' = 64 \<and> bufsize' + length rest < 64"
  using assms
proof (induction st bf bufsize data rule: sha256_write_loop.induct)
  case (1 st bf bufsize data)
  show ?case
  proof (cases "64 - bufsize \<le> length data")
    case True
    let ?bf = "memcpy_at bf bufsize (take (64 - bufsize) data)"
    let ?st = "secp256k1_sha256_transform st ?bf"
    have c: "bufsize < 64 \<and> 64 - bufsize \<le> length data" using True 1(3) by simp
    have bf1: "?bf = take bufsize bf @ take (64 - bufsize) data"
      using 1(2,3) True by (simp add: memcpy_at_def)
    have bf2: "length ?bf = 64"
      using 1(2,3) True by (simp add: memcpy_at_def)
    have step: "sha256_write_loop st bf bufsize data = sha256_write_loop ?st ?bf 0 (drop (64 - bufsize) data)"
      using sha256_write_loop.simps[of st bf bufsize data] c by (simp only: Let_def if_True simp_thms)
    note IH = "1.IH"[OF c refl refl refl bf2 zero_less_numeral]
    have "take bufsize bf @ data = ?bf @ drop (64 - bufsize) data"
      unfolding bf1 by simp
    then have "sha256_absorb st (take bufsize bf @ data) = sha256_absorb ?st (drop (64 - bufsize) data)"
      using sha256_absorb_block[OF bf2, of st "drop (64 - bufsize) data"] by simp
    moreover have "take 0 ?bf @ drop (64 - bufsize) data = drop (64 - bufsize) data" by simp
    ultimately show ?thesis using IH unfolding step by simp
  next
    case False
    then have "sha256_write_loop st bf bufsize data = (st, bf, bufsize, data)"
      using sha256_write_loop.simps[of st bf bufsize data] by simp
    moreover have "length (take bufsize bf @ data) < 64" using False 1(2,3) by simp
    ultimately show ?thesis using 1(2,3) False by (simp add: sha256_absorb_short)
  qed
qed


lemma sha256_write_view:
  assumes "length (sha_buf h) = 64"
  shows "sha256_view (secp256k1_sha256_write h data) =
           (case sha256_absorb (sha_s h) (sha256_pending h @ data) of
              (st, r) \<Rightarrow> (st, sha_bytes h + length data, r))"
    and "length (sha_buf (secp256k1_sha256_write h data)) = 64"
proof -
  let ?bs = "sha_bytes h mod 64"
  obtain st' bf' bufsize' rest where
    loop: "sha256_write_loop (sha_s h) (sha_buf h) ?bs data = (st', bf', bufsize', rest)"
    by (cases "sha256_write_loop (sha_s h) (sha_buf h) ?bs data") auto
  have bs: "?bs < 64" by simp
  from sha256_write_loop_absorb[OF assms bs, of "sha_s h" data] loop
  have ab: "sha256_absorb (sha_s h) (take ?bs (sha_buf h) @ data) = (st', take bufsize' bf' @ rest)"
    and len: "length bf' = 64" and small: "bufsize' + length rest < 64"
    by simp_all
  let ?bf = "if rest \<noteq> [] then memcpy_at bf' bufsize' rest else bf'"
  have w: "secp256k1_sha256_write h data =
             h\<lparr>sha_s := st', sha_buf := ?bf, sha_bytes := sha_bytes h + length data\<rparr>"
    by (simp add: secp256k1_sha256_write_def Let_def loop)
  have lbf: "length ?bf = 64" using len small by (simp add: memcpy_at_def)
  have "length (take bufsize' bf' @ rest) = length (take ?bs (sha_buf h) @ data) mod 64"
    using sha256_absorb_rest_length[OF ab] .
  then have "bufsize' + length rest = (?bs + length data) mod 64"
    using len small assms by simp
  then have cnt: "(sha_bytes h + length data) mod 64 = bufsize' + length rest"
    by (simp add: mod_add_left_eq)
  have "take (bufsize' + length rest) ?bf = take bufsize' bf' @ rest"
    using len small by (simp add: memcpy_at_def)
  then have pend: "sha256_pending (secp256k1_sha256_write h data) = take bufsize' bf' @ rest"
    unfolding sha256_pending_def w using cnt by simp
  show "sha256_view (secp256k1_sha256_write h data) =
           (case sha256_absorb (sha_s h) (sha256_pending h @ data) of
              (st, r) \<Rightarrow> (st, sha_bytes h + length data, r))"
    using ab pend by (simp add: sha256_view_def sha256_pending_def w)
  show "length (sha_buf (secp256k1_sha256_write h data)) = 64"
    using lbf by (simp add: w)
qed

lemma sha256_view_write_cong:
  assumes "sha256_view h = sha256_view h'" "length (sha_buf h) = 64" "length (sha_buf h') = 64"
  shows "sha256_view (secp256k1_sha256_write h data) = sha256_view (secp256k1_sha256_write h' data)"
  using assms sha256_write_view(1)[of h data] sha256_write_view(1)[of h' data]
  by (simp add: sha256_view_def)

lemma sha256_view_write_write:
  assumes "length (sha_buf h) = 64"
  shows "sha256_view (secp256k1_sha256_write (secp256k1_sha256_write h a) b) =
         sha256_view (secp256k1_sha256_write h (a @ b))"
proof -
  obtain st r where ab: "sha256_absorb (sha_s h) (sha256_pending h @ a) = (st, r)"
    by (cases "sha256_absorb (sha_s h) (sha256_pending h @ a)") auto
  have v1: "sha256_view (secp256k1_sha256_write h a) = (st, sha_bytes h + length a, r)"
    using sha256_write_view(1)[OF assms, of a] ab by simp
  have l1: "length (sha_buf (secp256k1_sha256_write h a)) = 64"
    using sha256_write_view(2)[OF assms] .
  have "sha256_view (secp256k1_sha256_write (secp256k1_sha256_write h a) b) =
          (case sha256_absorb st (r @ b) of (st', r') \<Rightarrow> (st', sha_bytes h + length a + length b, r'))"
    using sha256_write_view(1)[OF l1, of b] v1 by (simp add: sha256_view_def)
  moreover have "sha256_absorb (sha_s h) (sha256_pending h @ a @ b) = sha256_absorb st (r @ b)"
    using sha256_absorb_append[of "sha_s h" "sha256_pending h @ a" b] ab by simp
  ultimately show ?thesis
    using sha256_write_view(1)[OF assms, of "a @ b"] by (simp add: add.assoc)
qed

lemma sha256_finalize_view:
  assumes "length (sha_buf h) = 64"
  shows "snd (secp256k1_sha256_finalize h) =
           sha256_digest (fst (sha256_absorb (sha_s h) (sha256_pending h @ sha256_padding (sha_bytes h))))"
proof -
  let ?pad = "0x80 # replicate ((119 - sha_bytes h mod 64) mod 64) (0::byte)"
  let ?h1 = "secp256k1_sha256_write h ?pad"
  let ?h2 = "secp256k1_sha256_write ?h1 (sha256_sizedesc (sha_bytes h))"
  have "sha256_view ?h2 = sha256_view (secp256k1_sha256_write h (?pad @ sha256_sizedesc (sha_bytes h)))"
    using sha256_view_write_write[OF assms] .
  then have "sha_s ?h2 = fst (sha256_absorb (sha_s h) (sha256_pending h @ sha256_padding (sha_bytes h)))"
    using sha256_write_view(1)[OF assms, of "?pad @ sha256_sizedesc (sha_bytes h)"]
    by (simp add: sha256_view_def sha256_padding_def split_beta)
  then show ?thesis
    by (simp add: secp256k1_sha256_finalize_def Let_def sha256_digest_def)
qed

lemma sha256_finalize_cong:
  assumes "sha256_view h = sha256_view h'" "length (sha_buf h) = 64" "length (sha_buf h') = 64"
  shows "snd (secp256k1_sha256_finalize h) = snd (secp256k1_sha256_finalize h')"
  using assms by (simp add: sha256_finalize_view sha256_view_def)

lemma sha256_closed_form:
  "sha256 msg = sha256_digest (fst (sha256_absorb sha256_IV (msg @ sha256_padding (length msg))))"
proof -
  let ?h0 = "secp256k1_sha256_initialize sha256_local"
  have l0: "length (sha_buf ?h0) = 64"
    by (simp add: secp256k1_sha256_initialize_def sha256_local_def)
  have p0: "sha256_pending ?h0 = []" "sha_s ?h0 = sha256_IV" "sha_bytes ?h0 = 0"
    by (simp_all add: secp256k1_sha256_initialize_def sha256_local_def sha256_pending_def)
  obtain st r where ab: "sha256_absorb sha256_IV msg = (st, r)"
    by (cases "sha256_absorb sha256_IV msg") auto
  have v: "sha256_view (secp256k1_sha256_write ?h0 msg) = (st, length msg, r)"
    using sha256_write_view(1)[OF l0, of msg] ab p0 by simp
  have l1: "length (sha_buf (secp256k1_sha256_write ?h0 msg)) = 64"
    using sha256_write_view(2)[OF l0] .
  have "sha256 msg = sha256_digest (fst (sha256_absorb st (r @ sha256_padding (length msg))))"
    using sha256_finalize_view[OF l1] v by (simp add: sha256_def sha256_view_def)
  also have "sha256_absorb st (r @ sha256_padding (length msg)) =
             sha256_absorb sha256_IV (msg @ sha256_padding (length msg))"
    using sha256_absorb_append[of sha256_IV msg "sha256_padding (length msg)"] ab by simp
  finally show ?thesis .
qed

text \<open>A hash object set to a midstate after 64 bytes hashes like the plain hash of the
  64 bytes followed by the data.\<close>

lemma sha256_midstate:
  assumes "length (sha_buf h) = 64" "sha_bytes h = 64"
    and "length pre = 64" "secp256k1_sha256_transform sha256_IV pre = sha_s h"
  shows "snd (secp256k1_sha256_finalize (secp256k1_sha256_write h msg)) = sha256 (pre @ msg)"
proof -
  have p: "sha256_pending h = []" using assms(2) by (simp add: sha256_pending_def)
  obtain st r where ab: "sha256_absorb (sha_s h) msg = (st, r)"
    by (cases "sha256_absorb (sha_s h) msg") auto
  have v: "sha256_view (secp256k1_sha256_write h msg) = (st, 64 + length msg, r)"
    using sha256_write_view(1)[OF assms(1), of msg] ab p assms(2) by simp
  have l1: "length (sha_buf (secp256k1_sha256_write h msg)) = 64"
    using sha256_write_view(2)[OF assms(1)] .
  have "snd (secp256k1_sha256_finalize (secp256k1_sha256_write h msg)) =
          sha256_digest (fst (sha256_absorb st (r @ sha256_padding (64 + length msg))))"
    using sha256_finalize_view[OF l1] v by (simp add: sha256_view_def)
  also have "sha256_absorb st (r @ sha256_padding (64 + length msg)) =
             sha256_absorb (sha_s h) (msg @ sha256_padding (64 + length msg))"
    using sha256_absorb_append[of "sha_s h" msg "sha256_padding (64 + length msg)"] ab by simp
  also have "\<dots> = sha256_absorb sha256_IV (pre @ msg @ sha256_padding (64 + length msg))"
    using sha256_absorb_block[OF assms(3), of sha256_IV] assms(4) by simp
  finally show ?thesis using assms(3) by (simp add: sha256_closed_form)
qed


subsection \<open>The two midstates\<close>

lemma replicate_numeral_unfold: "replicate (numeral k) x = x # replicate (pred_numeral k) x"
  by (simp only: numeral_eq_Suc[of k] replicate.simps)

lemma le_bytes_numeral: "le_bytes (numeral k) v = of_nat v # le_bytes (pred_numeral k) (v div 256)"
  by (simp only: numeral_eq_Suc[of k] le_bytes.simps)

lemma keyagglist_tag_transform:
  "secp256k1_sha256_transform sha256_IV
     [0x4b, 0x65, 0x79, 0x41, 0x67, 0x67, 0x20, 0x6c, 0x69, 0x73, 0x74, 0x80, 0x00, 0x00,
     0x00, 0x00, 0x00, 0x00, 0x00, 0x00, 0x00, 0x00, 0x00, 0x00, 0x00, 0x00, 0x00,
     0x00, 0x00, 0x00, 0x00, 0x00, 0x00, 0x00, 0x00, 0x00, 0x00, 0x00, 0x00, 0x00,
     0x00, 0x00, 0x00, 0x00, 0x00, 0x00, 0x00, 0x00, 0x00, 0x00, 0x00, 0x00, 0x00,
     0x00, 0x00, 0x00, 0x00, 0x00, 0x00, 0x00, 0x00, 0x00, 0x00, 0x58] =
   [0x481c971c, 0x3c0b46d7, 0xf0b275ae, 0x598d4e2c, 0x7ed7319c, 0x594a5c6e, 0xc79ea0d4,
   0x990294f0]"
  by code_simp

lemma keyagglist_midstate_transform:
  "secp256k1_sha256_transform sha256_IV
     [0x48, 0x1c, 0x97, 0x1c, 0x3c, 0x0b, 0x46, 0xd7, 0xf0, 0xb2, 0x75, 0xae, 0x59, 0x8d,
     0x4e, 0x2c, 0x7e, 0xd7, 0x31, 0x9c, 0x59, 0x4a, 0x5c, 0x6e, 0xc7, 0x9e, 0xa0,
     0xd4, 0x99, 0x02, 0x94, 0xf0, 0x48, 0x1c, 0x97, 0x1c, 0x3c, 0x0b, 0x46, 0xd7,
     0xf0, 0xb2, 0x75, 0xae, 0x59, 0x8d, 0x4e, 0x2c, 0x7e, 0xd7, 0x31, 0x9c, 0x59,
     0x4a, 0x5c, 0x6e, 0xc7, 0x9e, 0xa0, 0xd4, 0x99, 0x02, 0x94, 0xf0] =
   [0xb399d5e0, 0xc8fff302, 0x6badac71, 0x07c5b7f1, 0x9701e2ef, 0x2a72ecf8, 0x201a4c7b,
   0xab148a38]"
  by code_simp

lemma keyagglist_tag_block:
  "ascii ''KeyAgg list'' @ sha256_padding 11 =
     [0x4b, 0x65, 0x79, 0x41, 0x67, 0x67, 0x20, 0x6c, 0x69, 0x73, 0x74, 0x80, 0x00, 0x00,
     0x00, 0x00, 0x00, 0x00, 0x00, 0x00, 0x00, 0x00, 0x00, 0x00, 0x00, 0x00, 0x00,
     0x00, 0x00, 0x00, 0x00, 0x00, 0x00, 0x00, 0x00, 0x00, 0x00, 0x00, 0x00, 0x00,
     0x00, 0x00, 0x00, 0x00, 0x00, 0x00, 0x00, 0x00, 0x00, 0x00, 0x00, 0x00, 0x00,
     0x00, 0x00, 0x00, 0x00, 0x00, 0x00, 0x00, 0x00, 0x00, 0x00, 0x58]"
  by (simp add: ascii_def sha256_padding_def sha256_sizedesc_def be_bytes_def le_bytes_numeral replicate_numeral_unfold)

lemma keyagglist_tag_sha256:
  "sha256 (ascii ''KeyAgg list'') =
     [0x48, 0x1c, 0x97, 0x1c, 0x3c, 0x0b, 0x46, 0xd7, 0xf0, 0xb2, 0x75, 0xae, 0x59, 0x8d,
     0x4e, 0x2c, 0x7e, 0xd7, 0x31, 0x9c, 0x59, 0x4a, 0x5c, 0x6e, 0xc7, 0x9e, 0xa0,
     0xd4, 0x99, 0x02, 0x94, 0xf0]"
proof -
  have "length (ascii ''KeyAgg list'') = 11" by (simp add: ascii_def)
  then have "sha256 (ascii ''KeyAgg list'') =
      sha256_digest (fst (sha256_absorb sha256_IV (ascii ''KeyAgg list'' @ sha256_padding 11)))"
    by (simp add: sha256_closed_form)
  also have "\<dots> = sha256_digest
      [0x481c971c, 0x3c0b46d7, 0xf0b275ae, 0x598d4e2c, 0x7ed7319c, 0x594a5c6e, 0xc79ea0d4,
      0x990294f0]"
    unfolding keyagglist_tag_block
    by (subst sha256_absorb_unfold_ge, simp, simp add: sha256_absorb_short keyagglist_tag_transform)
  also have "\<dots> = [0x48, 0x1c, 0x97, 0x1c, 0x3c, 0x0b, 0x46, 0xd7, 0xf0, 0xb2, 0x75, 0xae, 0x59, 0x8d,
     0x4e, 0x2c, 0x7e, 0xd7, 0x31, 0x9c, 0x59, 0x4a, 0x5c, 0x6e, 0xc7, 0x9e, 0xa0,
     0xd4, 0x99, 0x02, 0x94, 0xf0]"
    by (simp add: sha256_digest_def be32_bytes_def)
  finally show ?thesis .
qed

lemma keyaggcoef_tag_transform:
  "secp256k1_sha256_transform sha256_IV
     [0x4b, 0x65, 0x79, 0x41, 0x67, 0x67, 0x20, 0x63, 0x6f, 0x65, 0x66, 0x66, 0x69, 0x63,
     0x69, 0x65, 0x6e, 0x74, 0x80, 0x00, 0x00, 0x00, 0x00, 0x00, 0x00, 0x00, 0x00,
     0x00, 0x00, 0x00, 0x00, 0x00, 0x00, 0x00, 0x00, 0x00, 0x00, 0x00, 0x00, 0x00,
     0x00, 0x00, 0x00, 0x00, 0x00, 0x00, 0x00, 0x00, 0x00, 0x00, 0x00, 0x00, 0x00,
     0x00, 0x00, 0x00, 0x00, 0x00, 0x00, 0x00, 0x00, 0x00, 0x00, 0x90] =
   [0xbfc90403, 0x4d1c88e8, 0xc80e22e5, 0x3d24566d, 0x64824ed6, 0x427281c0, 0x9100f94d,
   0xcd52c981]"
  by code_simp

lemma keyaggcoef_midstate_transform:
  "secp256k1_sha256_transform sha256_IV
     [0xbf, 0xc9, 0x04, 0x03, 0x4d, 0x1c, 0x88, 0xe8, 0xc8, 0x0e, 0x22, 0xe5, 0x3d, 0x24,
     0x56, 0x6d, 0x64, 0x82, 0x4e, 0xd6, 0x42, 0x72, 0x81, 0xc0, 0x91, 0x00, 0xf9,
     0x4d, 0xcd, 0x52, 0xc9, 0x81, 0xbf, 0xc9, 0x04, 0x03, 0x4d, 0x1c, 0x88, 0xe8,
     0xc8, 0x0e, 0x22, 0xe5, 0x3d, 0x24, 0x56, 0x6d, 0x64, 0x82, 0x4e, 0xd6, 0x42,
     0x72, 0x81, 0xc0, 0x91, 0x00, 0xf9, 0x4d, 0xcd, 0x52, 0xc9, 0x81] =
   [0x6ef02c5a, 0x06a480de, 0x1f298665, 0x1d1134f2, 0x56a0b063, 0x52da4147, 0xf280d9d4,
   0x4484be15]"
  by code_simp

lemma keyaggcoef_tag_block:
  "ascii ''KeyAgg coefficient'' @ sha256_padding 18 =
     [0x4b, 0x65, 0x79, 0x41, 0x67, 0x67, 0x20, 0x63, 0x6f, 0x65, 0x66, 0x66, 0x69, 0x63,
     0x69, 0x65, 0x6e, 0x74, 0x80, 0x00, 0x00, 0x00, 0x00, 0x00, 0x00, 0x00, 0x00,
     0x00, 0x00, 0x00, 0x00, 0x00, 0x00, 0x00, 0x00, 0x00, 0x00, 0x00, 0x00, 0x00,
     0x00, 0x00, 0x00, 0x00, 0x00, 0x00, 0x00, 0x00, 0x00, 0x00, 0x00, 0x00, 0x00,
     0x00, 0x00, 0x00, 0x00, 0x00, 0x00, 0x00, 0x00, 0x00, 0x00, 0x90]"
  by (simp add: ascii_def sha256_padding_def sha256_sizedesc_def be_bytes_def le_bytes_numeral replicate_numeral_unfold)

lemma keyaggcoef_tag_sha256:
  "sha256 (ascii ''KeyAgg coefficient'') =
     [0xbf, 0xc9, 0x04, 0x03, 0x4d, 0x1c, 0x88, 0xe8, 0xc8, 0x0e, 0x22, 0xe5, 0x3d, 0x24,
     0x56, 0x6d, 0x64, 0x82, 0x4e, 0xd6, 0x42, 0x72, 0x81, 0xc0, 0x91, 0x00, 0xf9,
     0x4d, 0xcd, 0x52, 0xc9, 0x81]"
proof -
  have "length (ascii ''KeyAgg coefficient'') = 18" by (simp add: ascii_def)
  then have "sha256 (ascii ''KeyAgg coefficient'') =
      sha256_digest (fst (sha256_absorb sha256_IV (ascii ''KeyAgg coefficient'' @ sha256_padding 18)))"
    by (simp add: sha256_closed_form)
  also have "\<dots> = sha256_digest
      [0xbfc90403, 0x4d1c88e8, 0xc80e22e5, 0x3d24566d, 0x64824ed6, 0x427281c0, 0x9100f94d,
      0xcd52c981]"
    unfolding keyaggcoef_tag_block
    by (subst sha256_absorb_unfold_ge, simp, simp add: sha256_absorb_short keyaggcoef_tag_transform)
  also have "\<dots> = [0xbf, 0xc9, 0x04, 0x03, 0x4d, 0x1c, 0x88, 0xe8, 0xc8, 0x0e, 0x22, 0xe5, 0x3d, 0x24,
     0x56, 0x6d, 0x64, 0x82, 0x4e, 0xd6, 0x42, 0x72, 0x81, 0xc0, 0x91, 0x00, 0xf9,
     0x4d, 0xcd, 0x52, 0xc9, 0x81]"
    by (simp add: sha256_digest_def be32_bytes_def)
  finally show ?thesis .
qed


text \<open>
  C6. A hash object set up by \<open>secp256k1_musig_keyagglist_sha256\<close> or by
  \<open>secp256k1_musig_keyaggcoef_sha256\<close> (fixed midstate, byte counter 64), then given a
  message and finalized, yields the digest of the plain tagged hash
  \<open>SHA256(SHA256(tag) || SHA256(tag) || message)\<close> with the tag \<open>KeyAgg list\<close> and
  \<open>KeyAgg coefficient\<close> respectively, for every message and whatever the buffer of the
  object held before.
\<close>

theorem midstates_are_tagged_hashes:
  assumes "length (sha_buf sha) = 64"
  shows "snd (secp256k1_sha256_finalize
                (secp256k1_sha256_write (secp256k1_musig_keyagglist_sha256 sha) msg))
           = tagged_hash_plain (ascii ''KeyAgg list'') msg
       \<and> snd (secp256k1_sha256_finalize
                (secp256k1_sha256_write (secp256k1_musig_keyaggcoef_sha256 sha) msg))
           = tagged_hash_plain (ascii ''KeyAgg coefficient'') msg"
proof
  show "snd (secp256k1_sha256_finalize
               (secp256k1_sha256_write (secp256k1_musig_keyagglist_sha256 sha) msg))
           = tagged_hash_plain (ascii ''KeyAgg list'') msg"
    unfolding tagged_hash_plain_def keyagglist_tag_sha256 append_assoc[symmetric]
    by (rule sha256_midstate)
       (simp_all add: secp256k1_musig_keyagglist_sha256_def secp256k1_sha256_initialize_def assms
          keyagglist_midstate_transform)
  show "snd (secp256k1_sha256_finalize
               (secp256k1_sha256_write (secp256k1_musig_keyaggcoef_sha256 sha) msg))
           = tagged_hash_plain (ascii ''KeyAgg coefficient'') msg"
    unfolding tagged_hash_plain_def keyaggcoef_tag_sha256 append_assoc[symmetric]
    by (rule sha256_midstate)
       (simp_all add: secp256k1_musig_keyaggcoef_sha256_def secp256k1_sha256_initialize_def assms
          keyaggcoef_midstate_transform)
qed

theorem midstates_are_tagged_hashes_witness:
  "length (sha_buf sha256_local) = 64
   \<and> snd (secp256k1_sha256_finalize
           (secp256k1_sha256_write (secp256k1_musig_keyagglist_sha256 sha256_local) [0x01, 0x02]))
       = tagged_hash_plain (ascii ''KeyAgg list'') [0x01, 0x02]
   \<and> snd (secp256k1_sha256_finalize
           (secp256k1_sha256_write (secp256k1_musig_keyaggcoef_sha256 sha256_local) [0x01, 0x02]))
       = tagged_hash_plain (ascii ''KeyAgg coefficient'') [0x01, 0x02]"
proof -
  have h: "length (sha_buf sha256_local) = 64" by (simp add: sha256_local_def)
  show ?thesis using h midstates_are_tagged_hashes [OF h, of "[0x01, 0x02]"] by simp
qed

end
